theory Spec2Isabelle
  imports Main "HOL-Library.Sublist"
begin

section \<open>The verification script \<open>verify_map.py\<close>\<close>

text \<open>
  The script drives a browser through the Playwright library: it starts the driver in a
  \<open>with\<close> block, launches a browser, opens a page, subscribes to the page's console,
  opens a local file, waits, takes a screenshot and closes the browser. Everything it does
  is a call into a library, so the model is the script's control flow over an explicit
  world: the calls made (in order), what is on standard output, the files on disk and the
  browser process. What each library call answers (whether it raises, what the page logs,
  what the page looks like) is the environment \<open>env\<close>, a parameter of every run.
\<close>

subsection \<open>Values\<close>

text \<open>A raised Python exception, identified by its message.\<close>

datatype exn = Exn string

text \<open>The bytes of a PNG file.\<close>

type_synonym image = "nat list"

text \<open>A browser console message; the script reads only \<open>msg.text\<close>.\<close>

record console_message =
  msg_text :: string

text \<open>The handles the script holds: \<open>p\<close>, \<open>browser\<close> and \<open>page\<close>.\<close>

datatype playwright = Playwright
datatype browser = Browser
datatype page = Page

text \<open>
  A library call as the script writes it, with its arguments. The screenshot's second
  argument is the keyword \<open>full_page\<close>: \<open>None\<close> when the caller does not pass it.
\<close>

datatype call =
    SyncPlaywrightEnter
  | ChromiumLaunch
  | BrowserNewPage
  | PageOn string
  | OsPathAbspath string
  | PageGoto string
  | PageWaitForTimeout nat
  | PageScreenshot string "bool option"
  | BrowserClose
  | SyncPlaywrightExit

datatype process = NotLaunched | Running | Released

subsection \<open>The environment and the world\<close>

text \<open>
  The environment: the working directory of the process, the path of the script file
  (Python's \<open>__file__\<close>), for each library call the exception it raises (if any), the
  console messages the page emits while the script is blocked in \<open>goto\<close> and in
  \<open>wait_for_timeout\<close>, which texts the encoding of standard output can encode, and the
  two pictures the browser can take of the page.
\<close>

record env =
  cwd :: string
  script_file :: string
  enter_raises :: "exn option"
  launch_raises :: "exn option"
  new_page_raises :: "exn option"
  on_raises :: "exn option"
  getcwd_raises :: "exn option"
  goto_raises :: "string \<Rightarrow> exn option"
  wait_raises :: "exn option"
  screenshot_raises :: "exn option"
  close_raises :: "exn option"
  console_during_goto :: "console_message list"
  console_during_wait :: "console_message list"
  stdout_encodes :: "string \<Rightarrow> bool"
  viewport_png :: image
  full_page_png :: image

text \<open>
  The world: the calls made, the text on standard output, the files on disk, the console
  listeners of the page (a listener takes a message and the text on standard output, and
  returns the new text or raises), the exceptions listeners have raised, the URL the page
  is at, the files the browser has opened for the page, the time slept, and the browser
  process with the number of times it has been ended.
\<close>

record world =
  calls :: "call list"
  stdout :: string
  files :: "string \<rightharpoonup> image"
  console_listeners :: "(console_message \<Rightarrow> string \<Rightarrow> exn + string) list"
  listener_errors :: "exn list"
  location :: "string option"
  opened :: "string list"
  slept_ms :: nat
  browser_process :: process
  browser_releases :: nat

subsection \<open>Paths: \<open>os.path\<close> on POSIX\<close>

text \<open>
  \<open>os.path.abspath\<close> is \<open>normpath(join(os.getcwd(), path))\<close> for a relative path.
  The three functions follow \<open>posixpath\<close>; \<open>split_sep\<close> is \<open>str.split('/')\<close> and
  \<open>sep_join\<close> is \<open>'/'.join\<close>.
\<close>

definition isabs :: "string \<Rightarrow> bool" where
  "isabs s = (take 1 s = ''/'')"

definition join :: "string \<Rightarrow> string \<Rightarrow> string" where
  "join a b =
     (if isabs b then b
      else if a = [] then b
      else if last a = CHR ''/'' then a @ b
      else a @ ''/'' @ b)"

fun split_sep :: "string \<Rightarrow> string list" where
  "split_sep [] = [] # []"
| "split_sep (c # cs) =
     (if c = CHR ''/'' then [] # split_sep cs
      else (case split_sep cs of [] \<Rightarrow> [c] # [] | x # xs \<Rightarrow> (c # x) # xs))"

fun sep_join :: "string list \<Rightarrow> string" where
  "sep_join [] = []"
| "sep_join [x] = x"
| "sep_join (x # y # zs) = x @ ''/'' @ sep_join (y # zs)"

text \<open>
  The loop of \<open>normpath\<close> over the components, \<open>new_comps\<close> being the list built so far:
  empty components and \<open>.\<close> are skipped, \<open>..\<close> removes the last component where there is
  one to remove.
\<close>

fun norm_comps :: "bool \<Rightarrow> string list \<Rightarrow> string list \<Rightarrow> string list" where
  "norm_comps slashes [] new_comps = new_comps"
| "norm_comps slashes (c # comps) new_comps =
     (if c = [] \<or> c = ''.'' then norm_comps slashes comps new_comps
      else if c \<noteq> ''..'' \<or> (\<not> slashes \<and> new_comps = []) \<or>
              (new_comps \<noteq> [] \<and> last new_comps = ''..'')
      then norm_comps slashes comps (new_comps @ [c])
      else if new_comps \<noteq> [] then norm_comps slashes comps (butlast new_comps)
      else norm_comps slashes comps new_comps)"

text \<open>
  POSIX allows one or two initial slashes and treats three or more as one.
\<close>

definition initial_slashes :: "string \<Rightarrow> nat" where
  "initial_slashes path =
     (if take 1 path = ''/'' then
        (if take 2 path = ''//'' \<and> take 3 path \<noteq> ''///'' then 2 else 1)
      else 0)"

definition normpath :: "string \<Rightarrow> string" where
  "normpath path =
     (if path = [] then ''.''
      else
        (let n = initial_slashes path;
             comps = norm_comps (0 < n) (split_sep path) [];
             path' = replicate n (CHR ''/'') @ sep_join comps
         in if path' = [] then ''.'' else path'))"

text \<open>The path \<open>abspath\<close> returns when the working directory is \<open>d\<close>.\<close>

definition abspath_in :: "string \<Rightarrow> string \<Rightarrow> string" where
  "abspath_in d path = normpath (if isabs path then path else join d path)"

subsection \<open>File URLs\<close>

text \<open>
  The file a \<open>file://\<close> URL names: after the scheme comes the authority, up to the next
  \<open>/\<close>, then the path, which ends at the first \<open>?\<close> (query) or \<open>#\<close> (fragment) and in
  which \<open>%\<close> and two hexadecimal digits stand for one byte. Only a URL with an empty
  authority names a local file.
\<close>

definition hex_digit :: "char \<Rightarrow> nat option" where
  "hex_digit c =
     (let n = (of_char c :: nat)
      in if 48 \<le> n \<and> n \<le> 57 then Some (n - 48)
         else if 65 \<le> n \<and> n \<le> 70 then Some (n - 55)
         else if 97 \<le> n \<and> n \<le> 102 then Some (n - 87)
         else None)"

fun percent_decode :: "string \<Rightarrow> string" where
  "percent_decode [] = []"
| "percent_decode [c] = [c]"
| "percent_decode [c, a] = c # percent_decode [a]"
| "percent_decode (c # a # b # rest) =
     (if c = CHR ''%'' then
        (case hex_digit a of
           None \<Rightarrow> c # percent_decode (a # b # rest)
         | Some h \<Rightarrow>
             (case hex_digit b of
                None \<Rightarrow> c # percent_decode (a # b # rest)
              | Some l \<Rightarrow> char_of (16 * h + l) # percent_decode rest))
      else c # percent_decode (a # b # rest))"

definition url_file_path :: "string \<Rightarrow> string option" where
  "url_file_path url =
     (if take 7 url = ''file://'' then
        (let rest = drop 7 url;
             authority = takeWhile (\<lambda>c. c \<noteq> CHR ''/'' \<and> c \<noteq> CHR ''?'' \<and> c \<noteq> CHR ''#'') rest
         in if authority = [] then
              Some (percent_decode (takeWhile (\<lambda>c. c \<noteq> CHR ''?'' \<and> c \<noteq> CHR ''#'') rest))
            else None)
      else None)"


subsection \<open>Statements: sequencing and \<open>with\<close>\<close>

text \<open>
  A statement takes the world and returns its outcome and the new world; \<open>Inl e\<close> is the
  exception \<open>e\<close> raised. Sequencing stops at the first exception.
\<close>

definition and_then ::
  "(world \<Rightarrow> (exn + 'a) \<times> world) \<Rightarrow> ('a \<Rightarrow> world \<Rightarrow> (exn + 'b) \<times> world) \<Rightarrow>
   world \<Rightarrow> (exn + 'b) \<times> world" where
  "and_then m f w = (case m w of (Inl e, w1) \<Rightarrow> (Inl e, w1) | (Inr v, w1) \<Rightarrow> f v w1)"

text \<open>
  Python's \<open>with\<close> statement: \<open>__enter__\<close> is called; if it returns, the body runs and
  \<open>__exit__\<close> is called whether the body returned or raised. When the body raised and
  \<open>__exit__\<close> returns a false value the exception goes on; a true value swallows it; an
  exception of \<open>__exit__\<close> itself replaces it.
\<close>

definition with_stmt ::
  "(world \<Rightarrow> (exn + 'a) \<times> world) \<Rightarrow> (exn option \<Rightarrow> world \<Rightarrow> (exn + bool) \<times> world) \<Rightarrow>
   ('a \<Rightarrow> world \<Rightarrow> (exn + unit) \<times> world) \<Rightarrow> world \<Rightarrow> (exn + unit) \<times> world" where
  "with_stmt enter exit body w =
     (case enter w of
        (Inl e, w1) \<Rightarrow> (Inl e, w1)
      | (Inr v, w1) \<Rightarrow>
          (case body v w1 of
             (Inl e, w2) \<Rightarrow>
               (case exit (Some e) w2 of
                  (Inl e', w3) \<Rightarrow> (Inl e', w3)
                | (Inr swallow, w3) \<Rightarrow> (if swallow then (Inr (), w3) else (Inl e, w3)))
           | (Inr u, w2) \<Rightarrow>
               (case exit None w2 of
                  (Inl e', w3) \<Rightarrow> (Inl e', w3)
                | (Inr swallow, w3) \<Rightarrow> (Inr (), w3))))"

subsection \<open>The library calls\<close>

text \<open>
  A call is recorded; if the environment makes it raise, nothing else happens; otherwise
  it has its effect on the world and returns its value.
\<close>

definition lib_call ::
  "call \<Rightarrow> exn option \<Rightarrow> 'a \<Rightarrow> (world \<Rightarrow> world) \<Rightarrow> world \<Rightarrow> (exn + 'a) \<times> world" where
  "lib_call c raises v effect w =
     (let w1 = w\<lparr>calls := calls w @ [c]\<rparr>
      in case raises of Some e \<Rightarrow> (Inl e, w1) | None \<Rightarrow> (Inr v, effect w1))"

text \<open>
  \<open>print(s)\<close> writes \<open>s\<close> and a newline to standard output. When the encoding of
  standard output cannot encode \<open>s\<close> it raises \<open>UnicodeEncodeError\<close> and writes nothing.
\<close>

definition py_print :: "env \<Rightarrow> string \<Rightarrow> string \<Rightarrow> exn + string" where
  "py_print env s out =
     (if stdout_encodes env s then Inr (out @ s @ [CHR 0x0A])
      else Inl (Exn ''UnicodeEncodeError''))"

text \<open>
  A console message of the page is handed to every listener, in subscription order. What
  a listener prints is on standard output afterwards; an exception of a listener is the
  library's to deal with and is kept with the world.
\<close>

definition dispatch ::
  "(console_message \<Rightarrow> string \<Rightarrow> exn + string) list \<Rightarrow> console_message \<Rightarrow>
   string \<times> exn list \<Rightarrow> string \<times> exn list" where
  "dispatch listeners msg =
     fold (\<lambda>listener s.
             case listener msg (fst s) of
               Inr out \<Rightarrow> (out, snd s)
             | Inl e \<Rightarrow> (fst s, snd s @ [e])) listeners"

definition emit :: "console_message \<Rightarrow> world \<Rightarrow> world" where
  "emit msg w =
     (let s = dispatch (console_listeners w) msg (stdout w, listener_errors w)
      in w\<lparr>stdout := fst s, listener_errors := snd s\<rparr>)"

definition deliver :: "console_message list \<Rightarrow> world \<Rightarrow> world" where
  "deliver msgs w = fold emit msgs w"

text \<open>
  Stopping the driver, or closing the browser, ends a running browser process; on a
  process that is not running there is nothing to end.
\<close>

definition release_browser :: "world \<Rightarrow> world" where
  "release_browser w =
     (if browser_process w = Running
      then w\<lparr>browser_process := Released, browser_releases := Suc (browser_releases w)\<rparr>
      else w)"

definition sync_playwright_enter :: "env \<Rightarrow> world \<Rightarrow> (exn + playwright) \<times> world" where
  "sync_playwright_enter env = lib_call SyncPlaywrightEnter (enter_raises env) Playwright id"

text \<open>
  Playwright's \<open>__exit__\<close> stops the driver, and with it every browser the driver started;
  it returns \<open>None\<close>, so an exception of the body always goes on.
\<close>

definition sync_playwright_exit :: "env \<Rightarrow> exn option \<Rightarrow> world \<Rightarrow> (exn + bool) \<times> world" where
  "sync_playwright_exit env exc = lib_call SyncPlaywrightExit None False release_browser"

definition chromium_launch :: "env \<Rightarrow> playwright \<Rightarrow> world \<Rightarrow> (exn + browser) \<times> world" where
  "chromium_launch env p =
     lib_call ChromiumLaunch (launch_raises env) Browser (\<lambda>w. w\<lparr>browser_process := Running\<rparr>)"

definition browser_new_page :: "env \<Rightarrow> browser \<Rightarrow> world \<Rightarrow> (exn + page) \<times> world" where
  "browser_new_page env b = lib_call BrowserNewPage (new_page_raises env) Page id"

definition page_on ::
  "env \<Rightarrow> page \<Rightarrow> string \<Rightarrow> (console_message \<Rightarrow> string \<Rightarrow> exn + string) \<Rightarrow>
   world \<Rightarrow> (exn + unit) \<times> world" where
  "page_on env pg event listener =
     lib_call (PageOn event) (on_raises env) ()
       (\<lambda>w. if event = ''console''
            then w\<lparr>console_listeners := console_listeners w @ [listener]\<rparr> else w)"

definition os_path_abspath :: "env \<Rightarrow> string \<Rightarrow> world \<Rightarrow> (exn + string) \<times> world" where
  "os_path_abspath env path =
     lib_call (OsPathAbspath path) (if isabs path then None else getcwd_raises env)
       (abspath_in (cwd env) path) id"

text \<open>
  \<open>page.goto(url)\<close>: the browser opens the file the URL names and the page is at the
  URL; the console messages of the load are delivered before the call returns.
\<close>

definition page_goto :: "env \<Rightarrow> page \<Rightarrow> string \<Rightarrow> world \<Rightarrow> (exn + unit) \<times> world" where
  "page_goto env pg url =
     lib_call (PageGoto url) (goto_raises env url) ()
       (\<lambda>w. deliver (console_during_goto env)
             (w\<lparr>location := Some url,
                opened := opened w @ (case url_file_path url of None \<Rightarrow> [] | Some f \<Rightarrow> [f])\<rparr>))"

definition page_wait_for_timeout :: "env \<Rightarrow> page \<Rightarrow> nat \<Rightarrow> world \<Rightarrow> (exn + unit) \<times> world" where
  "page_wait_for_timeout env pg timeout =
     lib_call (PageWaitForTimeout timeout) (wait_raises env) ()
       (\<lambda>w. deliver (console_during_wait env) (w\<lparr>slept_ms := slept_ms w + timeout\<rparr>))"

text \<open>
  \<open>page.screenshot(path=..., full_page=...)\<close>: the picture is of the whole scrollable page
  when \<open>full_page\<close> is true and of the visible viewport otherwise; \<open>full_page\<close> defaults to
  false. The file is opened by the process, so a relative path is relative to the working
  directory; an existing file is replaced.
\<close>

definition page_screenshot ::
  "env \<Rightarrow> page \<Rightarrow> string \<Rightarrow> bool option \<Rightarrow> world \<Rightarrow> (exn + unit) \<times> world" where
  "page_screenshot env pg path full_page =
     lib_call (PageScreenshot path full_page) (screenshot_raises env) ()
       (\<lambda>w. w\<lparr>files := (files w)(abspath_in (cwd env) path \<mapsto>
                 (if full_page = Some True then full_page_png env else viewport_png env))\<rparr>)"

definition browser_close :: "env \<Rightarrow> browser \<Rightarrow> world \<Rightarrow> (exn + unit) \<times> world" where
  "browser_close env b = lib_call BrowserClose (close_raises env) () release_browser"

subsection \<open>The script\<close>

text \<open>The listener the script subscribes: \<open>lambda msg: print(f"CONSOLE: {msg.text}")\<close>.\<close>

definition console_listener :: "env \<Rightarrow> console_message \<Rightarrow> string \<Rightarrow> exn + string" where
  "console_listener env msg = py_print env (''CONSOLE: '' @ msg_text msg)"

text \<open>The body of the \<open>with\<close> block of \<open>run\<close>, statement by statement.\<close>

definition run_body :: "env \<Rightarrow> playwright \<Rightarrow> world \<Rightarrow> (exn + unit) \<times> world" where
  "run_body env p =
     and_then (chromium_launch env p) (\<lambda>browser.
     and_then (browser_new_page env browser) (\<lambda>page.
     and_then (page_on env page ''console'' (console_listener env)) (\<lambda>_.
     and_then (os_path_abspath env ''jules-scratch/verification/index.html'') (\<lambda>html_file_path.
     and_then (page_goto env page (''file://'' @ html_file_path)) (\<lambda>_.
     and_then (page_wait_for_timeout env page 2000) (\<lambda>_.
     and_then (page_screenshot env page ''jules-scratch/verification/verification.png'' None) (\<lambda>_.
     browser_close env browser)))))))"

definition run :: "env \<Rightarrow> world \<Rightarrow> (exn + unit) \<times> world" where
  "run env = with_stmt (sync_playwright_enter env) (sync_playwright_exit env) (run_body env)"


subsection \<open>Concrete inputs\<close>

text \<open>A world in which nothing has happened yet, and one with an old screenshot on disk.\<close>

definition world0 :: world where
  "world0 = \<lparr>calls = [], stdout = [], files = Map.empty, console_listeners = [],
             listener_errors = [], location = None, opened = [], slept_ms = 0,
             browser_process = NotLaunched, browser_releases = 0\<rparr>"

definition world_old :: world where
  "world_old = world0\<lparr>files :=
     [''/repo/jules-scratch/verification/verification.png'' \<mapsto> [9, 9, 9]]\<rparr>"

text \<open>
  An environment in which every call succeeds; the page logs \<open>ready\<close> while it loads and
  is taller than the viewport, so the two pictures differ.
\<close>

definition env_ok :: env where
  "env_ok = \<lparr>cwd = ''/repo'', script_file = ''/repo/jules-scratch/verification/verify_map.py'',
            enter_raises = None, launch_raises = None, new_page_raises = None,
            on_raises = None, getcwd_raises = None, goto_raises = (\<lambda>url. None),
            wait_raises = None, screenshot_raises = None, close_raises = None,
            console_during_goto = [\<lparr>msg_text = ''ready''\<rparr>], console_during_wait = [],
            stdout_encodes = (\<lambda>s. True),
            viewport_png = [1, 2, 3], full_page_png = [1, 2, 3, 4, 5]\<rparr>"

text \<open>The same, but \<open>index.html\<close> is missing and the navigation raises.\<close>

definition env_no_index :: env where
  "env_no_index = env_ok\<lparr>goto_raises := (\<lambda>url. Some (Exn ''net::ERR_FILE_NOT_FOUND''))\<rparr>"

text \<open>The same as \<open>env_ok\<close>, with the script started from another directory.\<close>

definition env_elsewhere :: env where
  "env_elsewhere = env_ok\<lparr>cwd := ''/home/user/Atlas''\<rparr>"

text \<open>Standard output with the ASCII encoding.\<close>

definition env_ascii :: env where
  "env_ascii = env_ok\<lparr>stdout_encodes := list_all (\<lambda>c. (of_char c :: nat) < 128)\<rparr>"

text \<open>Two working directories whose names differ after a \<open>#\<close> only.\<close>

definition env_hash_a :: env where
  "env_hash_a = env_ok\<lparr>cwd := ''/x#a''\<rparr>"

definition env_hash_b :: env where
  "env_hash_b = env_ok\<lparr>cwd := ''/x#b''\<rparr>"

subsection \<open>What a run did\<close>

text \<open>The calls \<open>run\<close> makes: those it adds to the calls already recorded in the world.\<close>

definition performed :: "env \<Rightarrow> world \<Rightarrow> call list" where
  "performed env w = drop (length (calls w)) (calls (snd (run env w)))"

text \<open>
  The specification's reading of a linear script, to compare \<open>run\<close> with: the steps are
  taken in order, the first exception ends the sequence and is the script's exception.
\<close>

primrec spec_first_raised :: "exn option list \<Rightarrow> exn option" where
  "spec_first_raised [] = None"
| "spec_first_raised (r # rs) = (case r of Some e \<Rightarrow> Some e | None \<Rightarrow> spec_first_raised rs)"

primrec spec_stop_at_raise :: "(call \<times> exn option) list \<Rightarrow> call list" where
  "spec_stop_at_raise [] = []"
| "spec_stop_at_raise (s # ss) =
     fst s # (case snd s of Some e \<Rightarrow> [] | None \<Rightarrow> spec_stop_at_raise ss)"

section \<open>Properties\<close>

subsection \<open>Auxiliary facts\<close>

lemma lib_call_None:
  "lib_call c None v effect w = (Inr v, effect (w\<lparr>calls := calls w @ [c]\<rparr>))"
  by (simp add: lib_call_def)

lemma lib_call_Some: "lib_call c (Some e) v effect w = (Inl e, w\<lparr>calls := calls w @ [c]\<rparr>)"
  by (simp add: lib_call_def)

lemma and_then_None:
  "and_then (lib_call c None v effect) f w = f v (effect (w\<lparr>calls := calls w @ [c]\<rparr>))"
  by (simp add: and_then_def lib_call_def)

lemma and_then_Some:
  "and_then (lib_call c (Some e) v effect) f w = (Inl e, w\<lparr>calls := calls w @ [c]\<rparr>)"
  by (simp add: and_then_def lib_call_def)

lemma isabs_index: "\<not> isabs ''jules-scratch/verification/index.html''"
  by (simp add: isabs_def)

lemma deliver_fold:
  "deliver msgs w =
     w\<lparr>stdout :=
         fst (fold (dispatch (console_listeners w)) msgs (stdout w, listener_errors w)),
       listener_errors :=
         snd (fold (dispatch (console_listeners w)) msgs (stdout w, listener_errors w))\<rparr>"
  unfolding deliver_def
  by (induction msgs arbitrary: w) (simp_all add: emit_def Let_def)

lemmas run_simps = run_def with_stmt_def run_body_def and_then_None and_then_Some
  sync_playwright_enter_def sync_playwright_exit_def chromium_launch_def
  browser_new_page_def page_on_def os_path_abspath_def page_goto_def page_wait_for_timeout_def
  page_screenshot_def browser_close_def lib_call_None lib_call_Some isabs_index
  deliver_fold release_browser_def

lemmas env_simps = env_ok_def env_no_index_def env_elsewhere_def env_ascii_def env_hash_a_def
  env_hash_b_def world0_def world_old_def

text \<open>A run takes one of ten paths: one per call that can raise, and the one without exception.\<close>

lemma run_cases [case_names enter launch new_page on getcwd goto wait screenshot close ok]:
  obtains
    (enter) e where "enter_raises env = Some e"
  | (launch) e where "enter_raises env = None" "launch_raises env = Some e"
  | (new_page) e where "enter_raises env = None" "launch_raises env = None"
      "new_page_raises env = Some e"
  | (on) e where "enter_raises env = None" "launch_raises env = None"
      "new_page_raises env = None" "on_raises env = Some e"
  | (getcwd) e where "enter_raises env = None" "launch_raises env = None"
      "new_page_raises env = None" "on_raises env = None" "getcwd_raises env = Some e"
  | (goto) e where "enter_raises env = None" "launch_raises env = None"
      "new_page_raises env = None" "on_raises env = None" "getcwd_raises env = None"
      "goto_raises env (''file://'' @ abspath_in (cwd env) ''jules-scratch/verification/index.html'') = Some e"
  | (wait) e where "enter_raises env = None" "launch_raises env = None"
      "new_page_raises env = None" "on_raises env = None" "getcwd_raises env = None"
      "goto_raises env (''file://'' @ abspath_in (cwd env) ''jules-scratch/verification/index.html'') = None"
      "wait_raises env = Some e"
  | (screenshot) e where "enter_raises env = None" "launch_raises env = None"
      "new_page_raises env = None" "on_raises env = None" "getcwd_raises env = None"
      "goto_raises env (''file://'' @ abspath_in (cwd env) ''jules-scratch/verification/index.html'') = None"
      "wait_raises env = None" "screenshot_raises env = Some e"
  | (close) e where "enter_raises env = None" "launch_raises env = None"
      "new_page_raises env = None" "on_raises env = None" "getcwd_raises env = None"
      "goto_raises env (''file://'' @ abspath_in (cwd env) ''jules-scratch/verification/index.html'') = None"
      "wait_raises env = None" "screenshot_raises env = None" "close_raises env = Some e"
  | (ok) "enter_raises env = None" "launch_raises env = None"
      "new_page_raises env = None" "on_raises env = None" "getcwd_raises env = None"
      "goto_raises env (''file://'' @ abspath_in (cwd env) ''jules-scratch/verification/index.html'') = None"
      "wait_raises env = None" "screenshot_raises env = None" "close_raises env = None"
proof (cases "enter_raises env")
  case (Some e)
  then show ?thesis by (rule enter)
next
  case a1: None
  show ?thesis
  proof (cases "launch_raises env")
    case (Some e)
    with a1 show ?thesis by (rule launch)
  next
    case a2: None
    show ?thesis
    proof (cases "new_page_raises env")
      case (Some e)
      with a1 a2 show ?thesis by (rule new_page)
    next
      case a3: None
      show ?thesis
      proof (cases "on_raises env")
        case (Some e)
        with a1 a2 a3 show ?thesis by (rule on)
      next
        case a4: None
        show ?thesis
        proof (cases "getcwd_raises env")
          case (Some e)
          with a1 a2 a3 a4 show ?thesis by (rule getcwd)
        next
          case a5: None
          show ?thesis
          proof (cases "goto_raises env (''file://'' @
              abspath_in (cwd env) ''jules-scratch/verification/index.html'')")
            case (Some e)
            with a1 a2 a3 a4 a5 show ?thesis by (rule goto)
          next
            case a6: None
            show ?thesis
            proof (cases "wait_raises env")
              case (Some e)
              with a1 a2 a3 a4 a5 a6 show ?thesis by (rule wait)
            next
              case a7: None
              show ?thesis
              proof (cases "screenshot_raises env")
                case (Some e)
                with a1 a2 a3 a4 a5 a6 a7 show ?thesis by (rule screenshot)
              next
                case a8: None
                show ?thesis
                proof (cases "close_raises env")
                  case (Some e)
                  with a1 a2 a3 a4 a5 a6 a7 a8 show ?thesis by (rule close)
                next
                  case None
                  with a1 a2 a3 a4 a5 a6 a7 a8 show ?thesis by (rule ok)
                qed
              qed
            qed
          qed
        qed
      qed
    qed
  qed
qed


lemma abspath_repo_index:
  "abspath_in ''/repo'' ''jules-scratch/verification/index.html'' =
     ''/repo/jules-scratch/verification/index.html''"
  by (simp add: abspath_in_def isabs_def join_def normpath_def initial_slashes_def)

lemma abspath_repo_png:
  "abspath_in ''/repo'' ''jules-scratch/verification/verification.png'' =
     ''/repo/jules-scratch/verification/verification.png''"
  by (simp add: abspath_in_def isabs_def join_def normpath_def initial_slashes_def)

lemma run_env_ok: "fst (run env_ok w) = Inr ()"
  by (simp add: run_simps env_simps)

subsection \<open>The console listener\<close>




subsection \<open>The main guard\<close>



subsection \<open>The order of the calls\<close>

text \<open>
  C5. The calls of a run are, in this order and each at most once: start the driver, launch
  the browser, open a page, register the console listener, build the path of the file URL,
  navigate, wait 2000 ms, take the screenshot, close the browser, leave the \<open>with\<close> block.
  A run that raises makes them up to and including the first that raises, then leaves the
  \<open>with\<close> block; a run that returns makes all. So no screenshot is taken without the
  wait before it. Whenever the navigation is begun the script's listener has been
  registered, and what is on standard output after the run is what that listener prints
  for the console messages of the navigation and then of the wait.
\<close>

theorem run_steps_in_order:
  "calls (snd (run env w)) = calls w @ performed env w \<and>
   performed env w =
     (case enter_raises env of
        Some e \<Rightarrow> [SyncPlaywrightEnter]
      | None \<Rightarrow>
          SyncPlaywrightEnter #
          spec_stop_at_raise
            [(ChromiumLaunch, launch_raises env),
             (BrowserNewPage, new_page_raises env),
             (PageOn ''console'', on_raises env),
             (OsPathAbspath ''jules-scratch/verification/index.html'', getcwd_raises env),
             (PageGoto (''file://'' @ abspath_in (cwd env) ''jules-scratch/verification/index.html''),
              goto_raises env (''file://'' @ abspath_in (cwd env) ''jules-scratch/verification/index.html'')),
             (PageWaitForTimeout 2000, wait_raises env),
             (PageScreenshot ''jules-scratch/verification/verification.png'' None,
              screenshot_raises env),
             (BrowserClose, close_raises env)] @
          [SyncPlaywrightExit]) \<and>
   subseq (performed env w)
     [SyncPlaywrightEnter, ChromiumLaunch, BrowserNewPage, PageOn ''console'',
      OsPathAbspath ''jules-scratch/verification/index.html'',
      PageGoto (''file://'' @ abspath_in (cwd env) ''jules-scratch/verification/index.html''),
      PageWaitForTimeout 2000,
      PageScreenshot ''jules-scratch/verification/verification.png'' None,
      BrowserClose, SyncPlaywrightExit] \<and>
   distinct (performed env w) \<and>
   (fst (run env w) = Inr () \<longrightarrow>
      performed env w =
        [SyncPlaywrightEnter, ChromiumLaunch, BrowserNewPage, PageOn ''console'',
         OsPathAbspath ''jules-scratch/verification/index.html'',
         PageGoto (''file://'' @ abspath_in (cwd env) ''jules-scratch/verification/index.html''),
         PageWaitForTimeout 2000,
         PageScreenshot ''jules-scratch/verification/verification.png'' None,
         BrowserClose, SyncPlaywrightExit]) \<and>
   (PageGoto (''file://'' @ abspath_in (cwd env) ''jules-scratch/verification/index.html'') \<in> set (performed env w) \<longrightarrow>
      console_listeners (snd (run env w)) = console_listeners w @ [console_listener env] \<and>
      (goto_raises env (''file://'' @ abspath_in (cwd env) ''jules-scratch/verification/index.html'') = None \<longrightarrow>
         stdout (snd (run env w)) =
           stdout (deliver
             (console_during_goto env @
                (if wait_raises env = None then console_during_wait env else []))
             (w\<lparr>console_listeners := console_listeners w @ [console_listener env]\<rparr>))))"
  by (cases env rule: run_cases) (simp_all add: run_simps performed_def)

theorem run_steps_in_order_witness:
  "fst (run env_ok world0) = Inr () \<and>
   performed env_ok world0 =
     [SyncPlaywrightEnter, ChromiumLaunch, BrowserNewPage, PageOn ''console'',
      OsPathAbspath ''jules-scratch/verification/index.html'',
      PageGoto ''file:///repo/jules-scratch/verification/index.html'',
      PageWaitForTimeout 2000,
      PageScreenshot ''jules-scratch/verification/verification.png'' None,
      BrowserClose, SyncPlaywrightExit] \<and>
   console_listeners (snd (run env_ok world0)) = [console_listener env_ok] \<and>
   stdout (snd (run env_ok world0)) = ''CONSOLE: ready'' @ [CHR 0x0A]"
proof -
  have c: "cwd env_ok = ''/repo''" "console_listeners world0 = []"
    "goto_raises env_ok u = None" for u
    by (simp_all add: env_simps)
  have d: "stdout (deliver
      (console_during_goto env_ok @
         (if wait_raises env_ok = None then console_during_wait env_ok else []))
      (world0\<lparr>console_listeners := console_listeners world0 @ [console_listener env_ok]\<rparr>)) =
      ''CONSOLE: ready'' @ [CHR 0x0A]"
    by (simp add: deliver_fold dispatch_def console_listener_def py_print_def env_simps)
  note t = run_steps_in_order [of env_ok world0]
  let ?url = "''file://'' @ abspath_in (cwd env_ok) ''jules-scratch/verification/index.html''"
  from t run_env_ok [of world0]
  have p: "performed env_ok world0 =
     [SyncPlaywrightEnter, ChromiumLaunch, BrowserNewPage, PageOn ''console'',
      OsPathAbspath ''jules-scratch/verification/index.html'',
      PageGoto ?url,
      PageWaitForTimeout 2000,
      PageScreenshot ''jules-scratch/verification/verification.png'' None,
      BrowserClose, SyncPlaywrightExit]"
    by blast
  then have g: "PageGoto ?url \<in> set (performed env_ok world0)" by simp
  from t g have l: "console_listeners (snd (run env_ok world0)) =
      console_listeners world0 @ [console_listener env_ok]"
    by blast
  from t g c(3) [of ?url] have o: "stdout (snd (run env_ok world0)) =
     stdout (deliver
      (console_during_goto env_ok @
         (if wait_raises env_ok = None then console_during_wait env_ok else []))
      (world0\<lparr>console_listeners := console_listeners world0 @ [console_listener env_ok]\<rparr>))"
    by blast
  from p have p': "performed env_ok world0 =
     [SyncPlaywrightEnter, ChromiumLaunch, BrowserNewPage, PageOn ''console'',
      OsPathAbspath ''jules-scratch/verification/index.html'',
      PageGoto ''file:///repo/jules-scratch/verification/index.html'',
      PageWaitForTimeout 2000,
      PageScreenshot ''jules-scratch/verification/verification.png'' None,
      BrowserClose, SyncPlaywrightExit]"
    by (simp add: c(1) abspath_repo_index)
  from l have l': "console_listeners (snd (run env_ok world0)) = [console_listener env_ok]"
    by (simp add: c(2))
  from o d have o': "stdout (snd (run env_ok world0)) = ''CONSOLE: ready'' @ [CHR 0x0A]"
    by simp
  from run_env_ok [of world0] p' l' o' show ?thesis by blast
qed

subsection \<open>Release of the browser\<close>

text \<open>
  C2. Whenever the browser was launched, the run ends with the browser process released,
  and released exactly once, whether the run returns or raises: on the path without
  exception \<open>browser.close()\<close> ends the process and the exit of the \<open>with\<close> block finds
  nothing left to end; on every path where a later call raises, the exit of the \<open>with\<close>
  block ends it. The exit is the last call of the run and happens once.
\<close>

theorem browser_released_exactly_once:
  assumes "enter_raises env = None" and "launch_raises env = None"
  shows "browser_process (snd (run env w)) = Released \<and>
     browser_releases (snd (run env w)) = Suc (browser_releases w) \<and>
     count_list (performed env w) SyncPlaywrightExit = 1 \<and>
     last (performed env w) = SyncPlaywrightExit"
  using assms by (cases env rule: run_cases) (simp_all add: run_simps performed_def)

theorem browser_released_exactly_once_witness:
  "enter_raises env_no_index = None \<and> launch_raises env_no_index = None \<and>
   fst (run env_no_index world0) = Inl (Exn ''net::ERR_FILE_NOT_FOUND'') \<and>
   browser_process (snd (run env_no_index world0)) = Released \<and>
   browser_releases (snd (run env_no_index world0)) = 1 \<and>
   last (performed env_no_index world0) = SyncPlaywrightExit"
proof -
  have h: "enter_raises env_no_index = None" "launch_raises env_no_index = None"
    by (simp_all add: env_simps)
  have r: "fst (run env_no_index world0) = Inl (Exn ''net::ERR_FILE_NOT_FOUND'')"
    by (simp add: run_simps env_simps)
  have z: "browser_releases world0 = 0" by (simp add: world0_def)
  show ?thesis
    using h r browser_released_exactly_once [OF h, of world0] by (simp add: z)
qed

subsection \<open>Failure\<close>

text \<open>
  C3. \<open>run\<close> has no handler and repeats nothing: its outcome is the exception of the first
  call that raises, unchanged, and \<open>None\<close> when no call raises; the calls it makes are
  the steps in order up to and including the first that raises, each once, followed by the
  exit of the \<open>with\<close> block.
\<close>

theorem run_propagates_first_failure:
  "fst (run env w) =
     (case spec_first_raised
        [enter_raises env, launch_raises env, new_page_raises env, on_raises env,
         getcwd_raises env,
         goto_raises env (''file://'' @ abspath_in (cwd env) ''jules-scratch/verification/index.html''),
         wait_raises env, screenshot_raises env, close_raises env]
      of Some e \<Rightarrow> Inl e | None \<Rightarrow> Inr ()) \<and>
   performed env w =
     (case enter_raises env of
        Some e \<Rightarrow> [SyncPlaywrightEnter]
      | None \<Rightarrow>
          SyncPlaywrightEnter #
          spec_stop_at_raise
            [(ChromiumLaunch, launch_raises env),
             (BrowserNewPage, new_page_raises env),
             (PageOn ''console'', on_raises env),
             (OsPathAbspath ''jules-scratch/verification/index.html'', getcwd_raises env),
             (PageGoto (''file://'' @ abspath_in (cwd env) ''jules-scratch/verification/index.html''),
              goto_raises env (''file://'' @ abspath_in (cwd env) ''jules-scratch/verification/index.html'')),
             (PageWaitForTimeout 2000, wait_raises env),
             (PageScreenshot ''jules-scratch/verification/verification.png'' None,
              screenshot_raises env),
             (BrowserClose, close_raises env)] @
          [SyncPlaywrightExit])"
  by (cases env rule: run_cases) (simp_all add: run_simps performed_def)

theorem run_propagates_first_failure_witness:
  "fst (run env_no_index world0) = Inl (Exn ''net::ERR_FILE_NOT_FOUND'') \<and>
   performed env_no_index world0 =
     [SyncPlaywrightEnter, ChromiumLaunch, BrowserNewPage, PageOn ''console'',
      OsPathAbspath ''jules-scratch/verification/index.html'',
      PageGoto ''file:///repo/jules-scratch/verification/index.html'',
      SyncPlaywrightExit] \<and>
   fst (run env_ok world0) = Inr ()"
  using run_propagates_first_failure [of env_no_index world0]
    run_propagates_first_failure [of env_ok world0]
  by (simp add: env_simps abspath_repo_index)

text \<open>
  C4. When the navigation raises, the run raises before it reaches the screenshot: no
  screenshot call is made and the files on disk are the files from before the run, so an
  earlier \<open>verification.png\<close> is left as it was.
\<close>

theorem failed_navigation_writes_no_file:
  assumes "goto_raises env (''file://'' @ abspath_in (cwd env) ''jules-scratch/verification/index.html'') = Some e"
  shows "files (snd (run env w)) = files w \<and>
    (\<forall>path full_page. PageScreenshot path full_page \<notin> set (performed env w)) \<and>
    (\<exists>e'. fst (run env w) = Inl e') \<and>
    (enter_raises env = None \<and> launch_raises env = None \<and> new_page_raises env = None \<and>
     on_raises env = None \<and> getcwd_raises env = None \<longrightarrow> fst (run env w) = Inl e)"
  using assms by (cases env rule: run_cases) (simp_all add: run_simps performed_def)

theorem failed_navigation_writes_no_file_witness:
  "goto_raises env_no_index
     (''file://'' @ abspath_in (cwd env_no_index) ''jules-scratch/verification/index.html'') =
     Some (Exn ''net::ERR_FILE_NOT_FOUND'') \<and>
   fst (run env_no_index world_old) = Inl (Exn ''net::ERR_FILE_NOT_FOUND'') \<and>
   files (snd (run env_no_index world_old))
     ''/repo/jules-scratch/verification/verification.png'' = Some [9, 9, 9]"
proof -
  have g: "goto_raises env_no_index
     (''file://'' @ abspath_in (cwd env_no_index) ''jules-scratch/verification/index.html'') =
     Some (Exn ''net::ERR_FILE_NOT_FOUND'')"
    by (simp add: env_simps)
  have h: "enter_raises env_no_index = None" "launch_raises env_no_index = None"
    "new_page_raises env_no_index = None" "on_raises env_no_index = None"
    "getcwd_raises env_no_index = None"
    by (simp_all add: env_simps)
  have f: "files world_old ''/repo/jules-scratch/verification/verification.png'' = Some [9, 9, 9]"
    by (simp add: env_simps)
  show ?thesis
    using g h f failed_navigation_writes_no_file [OF g, of world_old] by simp
qed

subsection \<open>The wait\<close>

text \<open>
  C7. Once the navigation has returned, the next call is \<open>wait_for_timeout(2000)\<close>,
  whatever the page showed or logged; it is the only wait of the run; when it returns, the
  run has slept exactly 2000 ms more than before and the call after it is the screenshot.
\<close>

theorem wait_2000_between_goto_and_screenshot:
  assumes "enter_raises env = None" and "launch_raises env = None"
    and "new_page_raises env = None" and "on_raises env = None"
    and "getcwd_raises env = None"
    and "goto_raises env (''file://'' @ abspath_in (cwd env) ''jules-scratch/verification/index.html'') = None"
  shows "take 7 (performed env w) =
     [SyncPlaywrightEnter, ChromiumLaunch, BrowserNewPage, PageOn ''console'',
      OsPathAbspath ''jules-scratch/verification/index.html'',
      PageGoto (''file://'' @ abspath_in (cwd env) ''jules-scratch/verification/index.html''),
      PageWaitForTimeout 2000] \<and>
     (\<forall>t. PageWaitForTimeout t \<in> set (performed env w) \<longrightarrow> t = 2000) \<and>
     count_list (performed env w) (PageWaitForTimeout 2000) = 1 \<and>
     (wait_raises env = None \<longrightarrow>
        slept_ms (snd (run env w)) = slept_ms w + 2000 \<and>
        take 1 (drop 7 (performed env w)) =
          [PageScreenshot ''jules-scratch/verification/verification.png'' None])"
  using assms by (cases env rule: run_cases) (simp_all add: run_simps performed_def)

theorem wait_2000_between_goto_and_screenshot_witness:
  "enter_raises env_ok = None \<and> launch_raises env_ok = None \<and> new_page_raises env_ok = None \<and>
   on_raises env_ok = None \<and> getcwd_raises env_ok = None \<and>
   goto_raises env_ok
     (''file://'' @ abspath_in (cwd env_ok) ''jules-scratch/verification/index.html'') = None \<and>
   wait_raises env_ok = None \<and>
   slept_ms (snd (run env_ok world0)) = 2000 \<and>
   take 1 (drop 7 (performed env_ok world0)) =
     [PageScreenshot ''jules-scratch/verification/verification.png'' None]"
proof -
  have h: "enter_raises env_ok = None" "launch_raises env_ok = None"
    "new_page_raises env_ok = None" "on_raises env_ok = None" "getcwd_raises env_ok = None"
    "goto_raises env_ok
      (''file://'' @ abspath_in (cwd env_ok) ''jules-scratch/verification/index.html'') = None"
    by (simp_all add: env_simps)
  have k: "wait_raises env_ok = None" "slept_ms world0 = 0"
    by (simp_all add: env_simps)
  show ?thesis
    using h k wait_2000_between_goto_and_screenshot [OF h, of world0] by simp
qed

subsection \<open>Paths\<close>













lemma isabs_normpath: "isabs p \<Longrightarrow> isabs (normpath p)"
proof -
  assume a: "isabs p"
  then have ne: "p \<noteq> []" by (auto simp: isabs_def)
  from a have "0 < initial_slashes p" by (simp add: isabs_def initial_slashes_def)
  then obtain m where m: "initial_slashes p = Suc m" by (cases "initial_slashes p") auto
  show ?thesis using ne m by (simp add: normpath_def Let_def isabs_def)
qed

lemma isabs_join: "isabs d \<Longrightarrow> isabs (join d rel)"
  by (cases d) (auto simp: join_def isabs_def)

lemma isabs_abspath_in: "isabs d \<Longrightarrow> isabs (abspath_in d rel)"
  by (simp add: abspath_in_def isabs_normpath isabs_join)

















text \<open>
  C8. The page is sent to exactly one URL: \<open>file://\<close> followed by what
  \<open>os.path.abspath\<close> returns for \<open>jules-scratch/verification/index.html\<close>, which is
  an absolute path; after the navigation the page is at that URL.
\<close>

theorem goto_file_url_of_abspath:
  assumes "enter_raises env = None" and "launch_raises env = None"
    and "new_page_raises env = None" and "on_raises env = None"
    and "getcwd_raises env = None"
  shows "OsPathAbspath ''jules-scratch/verification/index.html'' \<in> set (performed env w) \<and>
     (\<forall>url. (PageGoto url \<in> set (performed env w)) =
        (url = ''file://'' @ abspath_in (cwd env) ''jules-scratch/verification/index.html'')) \<and>
     (isabs (cwd env) \<longrightarrow>
        isabs (abspath_in (cwd env) ''jules-scratch/verification/index.html'')) \<and>
     (goto_raises env (''file://'' @ abspath_in (cwd env) ''jules-scratch/verification/index.html'') = None \<longrightarrow>
        location (snd (run env w)) =
          Some (''file://'' @ abspath_in (cwd env) ''jules-scratch/verification/index.html''))"
  using assms
  by (cases env rule: run_cases) (auto simp add: run_simps performed_def isabs_abspath_in)

theorem goto_file_url_of_abspath_witness:
  "enter_raises env_ok = None \<and> launch_raises env_ok = None \<and> new_page_raises env_ok = None \<and>
   on_raises env_ok = None \<and> getcwd_raises env_ok = None \<and>
   isabs (cwd env_ok) \<and> isabs ''/repo/jules-scratch/verification/index.html'' \<and>
   PageGoto ''file:///repo/jules-scratch/verification/index.html'' \<in>
     set (performed env_ok world0) \<and>
   location (snd (run env_ok world0)) =
     Some ''file:///repo/jules-scratch/verification/index.html''"
proof -
  have h: "enter_raises env_ok = None" "launch_raises env_ok = None"
    "new_page_raises env_ok = None" "on_raises env_ok = None" "getcwd_raises env_ok = None"
    by (simp_all add: env_simps)
  have c: "cwd env_ok = ''/repo''" "goto_raises env_ok u = None" for u
    by (simp_all add: env_simps)
  have a: "isabs ''/repo''" by (simp add: isabs_def)
  show ?thesis
    using h a goto_file_url_of_abspath [OF h, of world0] by (simp add: c abspath_repo_index)
qed







subsection \<open>The screenshot\<close>

text \<open>
  C1 (amended). When the calls before it have succeeded, the run calls
  \<open>page.screenshot\<close> once, with the path
  \<open>jules-scratch/verification/verification.png\<close> and without \<open>full_page\<close>, so the
  picture is of the viewport; when the call returns, the file at that path (relative to the
  working directory) holds the new picture, in place of any file that was there.
\<close>

theorem screenshot_viewport_to_fixed_path:
  assumes "enter_raises env = None" and "launch_raises env = None"
    and "new_page_raises env = None" and "on_raises env = None"
    and "getcwd_raises env = None"
    and "goto_raises env (''file://'' @ abspath_in (cwd env) ''jules-scratch/verification/index.html'') = None"
    and "wait_raises env = None"
  shows "PageScreenshot ''jules-scratch/verification/verification.png'' None \<in>
       set (performed env w) \<and>
     (\<forall>path full_page. PageScreenshot path full_page \<in> set (performed env w) \<longrightarrow>
        path = ''jules-scratch/verification/verification.png'' \<and> full_page = None) \<and>
     count_list (performed env w)
       (PageScreenshot ''jules-scratch/verification/verification.png'' None) = 1 \<and>
     (screenshot_raises env = None \<longrightarrow>
        files (snd (run env w)) =
          (files w)(abspath_in (cwd env) ''jules-scratch/verification/verification.png'' \<mapsto>
             viewport_png env))"
  using assms by (cases env rule: run_cases) (simp_all add: run_simps performed_def)

theorem screenshot_viewport_to_fixed_path_witness:
  "enter_raises env_ok = None \<and> launch_raises env_ok = None \<and> new_page_raises env_ok = None \<and>
   on_raises env_ok = None \<and> getcwd_raises env_ok = None \<and>
   goto_raises env_ok
     (''file://'' @ abspath_in (cwd env_ok) ''jules-scratch/verification/index.html'') = None \<and>
   wait_raises env_ok = None \<and> screenshot_raises env_ok = None \<and>
   files world_old ''/repo/jules-scratch/verification/verification.png'' = Some [9, 9, 9] \<and>
   files (snd (run env_ok world_old)) ''/repo/jules-scratch/verification/verification.png'' =
     Some [1, 2, 3]"
proof -
  have h: "enter_raises env_ok = None" "launch_raises env_ok = None"
    "new_page_raises env_ok = None" "on_raises env_ok = None" "getcwd_raises env_ok = None"
    "goto_raises env_ok
      (''file://'' @ abspath_in (cwd env_ok) ''jules-scratch/verification/index.html'') = None"
    "wait_raises env_ok = None"
    by (simp_all add: env_simps)
  have k: "screenshot_raises env_ok = None" "cwd env_ok = ''/repo''"
    "viewport_png env_ok = [1, 2, 3]"
    "files world_old ''/repo/jules-scratch/verification/verification.png'' = Some [9, 9, 9]"
    by (simp_all add: env_simps)
  show ?thesis
    using h k screenshot_viewport_to_fixed_path [OF h, of world_old]
    by (simp add: abspath_repo_png)
qed

text \<open>
  The screenshot is not of the full page: where the page is taller than the viewport, the
  file written by a run that succeeds holds the viewport picture and not the full-page one.
\<close>

theorem screenshot_full_page_counterexample:
  "fst (run env_ok world_old) = Inr () \<and>
   PageScreenshot ''jules-scratch/verification/verification.png'' (Some True) \<notin>
     set (performed env_ok world_old) \<and>
   files (snd (run env_ok world_old)) ''/repo/jules-scratch/verification/verification.png'' \<noteq>
     Some (full_page_png env_ok) \<and>
   files (snd (run env_ok world_old)) ''/repo/jules-scratch/verification/verification.png'' =
     Some (viewport_png env_ok)"
  by (simp add: run_simps performed_def env_simps abspath_repo_png)

end
